theory Spec2Isabelle
  imports
    Complex_Main
    "HOL-Library.Char_ord"
    "HOL-Library.List_Lexorder"
    "HOL-Library.Product_Lexorder"
    "HOL-Library.Multiset"
    "HOL-Library.Word"
begin

section \<open>Sales dashboard: load, filter, aggregate\<close>

text \<open>
  A shallow embedding of \<open>app.py\<close>, the Streamlit script of the sales dashboard.
  The script is a straight line: configure the page, load the table (through a
  time-limited cache), read the two filter widgets, filter the table, show four
  indicators, then a weekly line chart, a per-product bar chart and pie chart, and
  the detail table.

  The script is glue around pandas and Streamlit calls. Each library call that a
  property depends on is written out here as a function on lists, following the
  library's documented behaviour; the constant keeps the name of the call or of the
  variable the script assigns.

  The type of the amounts is the one the database gives the three amount columns. A
  sum of amounts is taken in that type, and the functions that only add amounts are
  defined for every type whose addition is associative and commutative with 0 as its
  neutral element: exact decimals (the rationals), unbounded integers, and 64-bit
  integers, whose addition wraps around. For such a type the order in which a column
  is added up does not change the sum. Binary floating point is not such a type (its
  sums round and depend on the order of summation) and is outside this development.
  The script as a whole, and the quotient of the deviation, are taken on exact
  rationals.
\<close>

subsection \<open>Calendar dates\<close>

text \<open>
  A date is its proleptic Gregorian ordinal, as \<open>datetime.date.toordinal\<close> gives it:
  day 1 is 0001-01-01, a Monday. The four functions below are those of Python's
  \<open>datetime\<close> module (\<open>_is_leap\<close>, \<open>_days_before_year\<close>,
  \<open>_days_before_month\<close>, \<open>_ymd2ord\<close>), for a month from 1 to 12; \<open>weekday\<close>
  counts Monday as 0.
\<close>

type_synonym date = int

definition is_leap :: "int \<Rightarrow> bool" where
  "is_leap year = (year mod 4 = 0 \<and> (year mod 100 \<noteq> 0 \<or> year mod 400 = 0))"

definition days_before_year :: "int \<Rightarrow> int" where
  "days_before_year year =
     (let y = year - 1 in y * 365 + y div 4 - y div 100 + y div 400)"

definition days_before_month :: "int \<Rightarrow> nat \<Rightarrow> int" where
  "days_before_month year month =
     [0, 31, 59, 90, 120, 151, 181, 212, 243, 273, 304, 334] ! (month - 1)
       + (if month > 2 \<and> is_leap year then 1 else 0)"

definition ymd2ord :: "int \<Rightarrow> nat \<Rightarrow> int \<Rightarrow> date" where
  "ymd2ord year month day = days_before_year year + days_before_month year month + day"

definition weekday :: "date \<Rightarrow> int" where
  "weekday d = (d + 6) mod 7"

subsection \<open>The table\<close>

text \<open>
  A timestamp is a date and a time of day (nanoseconds since midnight), ordered
  lexicographically. The query returns the column \<open>data\<close> as a DATE or a TIMESTAMP;
  \<open>pd.to_datetime\<close> turns both into timestamps, a DATE into midnight of its day.
  \<open>.dt.date\<close> and \<open>.date()\<close> keep the day and drop the time of day.
  The label of a row is a text or the SQL NULL, which pandas holds as \<open>None\<close>.
\<close>

type_synonym timestamp = "date \<times> nat"

datatype sql_value = SqlDate date | SqlTimestamp date nat

record ('d, 'n) sale =
  data :: 'd
  produto :: "string option"
  vendas :: 'n
  objectivo :: 'n
  lucro :: 'n

type_synonym 'n table = "(timestamp, 'n) sale list"

type_synonym dataframe = "rat table"

fun to_datetime :: "sql_value \<Rightarrow> timestamp" where
  "to_datetime (SqlDate d) = (d, 0)"
| "to_datetime (SqlTimestamp d t) = (d, t)"

definition dt_date :: "timestamp \<Rightarrow> date" where
  "dt_date t = fst t"

definition coerce_data :: "(sql_value, 'n) sale \<Rightarrow> (timestamp, 'n) sale" where
  "coerce_data r =
     \<lparr>data = to_datetime (data r), produto = produto r, vendas = vendas r,
      objectivo = objectivo r, lucro = lucro r\<rparr>"

subsection \<open>Errors, rendered elements and outcomes\<close>

text \<open>
  An exception is a value. \<open>ValueError\<close> carries the library's message;
  \<open>DriverError\<close> stands for whatever \<open>create_engine\<close> or \<open>read_sql\<close> raise;
  \<open>FileNotFoundError\<close> is what \<open>st.secrets\<close> raises when no secrets file exists;
  \<open>DateInputError\<close> is what \<open>st.date_input\<close> raises when its bounds are not dates.
  A run of the script leaves a trace of events: the elements it rendered and the
  queries it sent. It ends by completing, by \<open>st.stop()\<close>, or by an exception.
\<close>

datatype error =
    ValueError string
  | IndexError
  | DriverError string
  | FileNotFoundError
  | ZeroDivisionError
  | DateInputError

datatype event =
    PageConfig
  | Title
  | Header
  | ErrorBox
  | Query string
  | DateInput date date
  | Multiselect "string option list"
  | Metrics rat rat rat rat
  | Divider
  | LineChart "(date \<times> rat) list"
  | BarChart "(string \<times> rat \<times> rat) list"
  | PieChart "(string \<times> rat) list"
  | DetailTable dataframe

datatype 'a outcome = Returned 'a | Stopped | Raised error

subsection \<open>The loader\<close>

text \<open>
  The environment of a run: the secrets mapping, which exists only when a secrets file
  does, and the query parameters of the page URL (each name with the list of its
  values).

  \<open>database_url\<close> is line 40. \<open>st.secrets.get\<close> raises \<open>FileNotFoundError\<close> when
  there is no secrets file; otherwise it gives the secret \<open>DATABASE_URL\<close> or \<open>None\<close>.
  The result is that secret when it is truthy (present and not the empty string),
  otherwise element 0 of the values of the query parameter \<open>db\<close>, with \<open>[None]\<close> as
  the default when the parameter is missing. The query parameters are read only when
  the secret is not truthy, so never when \<open>st.secrets.get\<close> has raised.

  The database answers a connection string in one of three ways: \<open>create_engine\<close>
  raises, and nothing is sent; \<open>read_sql\<close> sends the query and raises; or
  \<open>read_sql\<close> sends the query and returns the rows.
\<close>

record env =
  secrets :: "(string \<rightharpoonup> string) option"
  query_params :: "string \<rightharpoonup> string list"

datatype db_answer =
    EngineError string
  | QueryError string
  | Rows "(sql_value, rat) sale list"

type_synonym database = "string \<Rightarrow> db_answer"

definition query_param_db :: "env \<Rightarrow> error + string option" where
  "query_param_db e =
     (case query_params e ''db'' of
        None \<Rightarrow> Inr None
      | Some [] \<Rightarrow> Inl IndexError
      | Some (v # _) \<Rightarrow> Inr (Some v))"

definition database_url :: "env \<Rightarrow> error + string option" where
  "database_url e =
     (case secrets e of
        None \<Rightarrow> Inl FileNotFoundError
      | Some toml \<Rightarrow>
          (case toml ''DATABASE_URL'' of
             None \<Rightarrow> query_param_db e
           | Some s \<Rightarrow> if s \<noteq> [] then Inr (Some s) else query_param_db e))"

definition load_data :: "env \<Rightarrow> database \<Rightarrow> event list \<times> dataframe outcome" where
  "load_data e db =
     (case database_url e of
        Inl err \<Rightarrow> ([], Raised err)
      | Inr None \<Rightarrow> ([ErrorBox], Stopped)
      | Inr (Some url) \<Rightarrow>
          (case db url of
             EngineError msg \<Rightarrow> ([], Raised (DriverError msg))
           | QueryError msg \<Rightarrow> ([Query url], Raised (DriverError msg))
           | Rows rows \<Rightarrow> ([Query url], Returned (map coerce_data rows))))"

text \<open>
  \<open>@st.cache_data(ttl=3600)\<close>: the loader takes no argument, so the cache holds at most
  one entry, the table last returned and the time it was stored (seconds on a
  monotonic clock). A call finds the entry while \<open>now < stored_at + ttl\<close> and then
  runs nothing of the body; otherwise it runs the body and stores the table if the
  body returns one. A body that stops or raises stores nothing.
\<close>

record cache_entry =
  cached :: dataframe
  stored_at :: nat

definition ttl :: nat where
  "ttl = 3600"

definition cached_load_data ::
  "nat \<Rightarrow> env \<Rightarrow> database \<Rightarrow> cache_entry option
     \<Rightarrow> (event list \<times> dataframe outcome) \<times> cache_entry option" where
  "cached_load_data now e db c =
     (let miss =
        (case load_data e db of
           (evs, Returned df) \<Rightarrow> ((evs, Returned df), Some \<lparr>cached = df, stored_at = now\<rparr>)
         | (evs, out) \<Rightarrow> ((evs, out), None))
      in case c of
           None \<Rightarrow> miss
         | Some ent \<Rightarrow>
             if now < stored_at ent + ttl then (([], Returned (cached ent)), c) else miss)"

subsection \<open>Sidebar\<close>

text \<open>
  Line 76: the minimum and the maximum of the column \<open>data\<close>, each turned into a date.
  On an empty column both are \<open>NaT\<close>, written \<open>None\<close> here, and the \<open>.date()\<close> of
  \<open>NaT\<close> is \<open>NaT\<close> again: line 76 raises nothing, on the empty table it gives the
  pair \<open>(NaT, NaT)\<close>.
  Line 88: \<open>unique()\<close> keeps the first occurrence of each label, in order of
  appearance, \<open>None\<close> included.
\<close>

definition series_min :: "timestamp list \<Rightarrow> timestamp option" where
  "series_min ts = (case ts of [] \<Rightarrow> None | t # ts' \<Rightarrow> Some (fold min ts' t))"

definition series_max :: "timestamp list \<Rightarrow> timestamp option" where
  "series_max ts = (case ts of [] \<Rightarrow> None | t # ts' \<Rightarrow> Some (fold max ts' t))"

definition date_bounds :: "'n table \<Rightarrow> date option \<times> date option" where
  "date_bounds df =
     (map_option dt_date (series_min (map data df)),
      map_option dt_date (series_max (map data df)))"

primrec unique_from :: "'a list \<Rightarrow> 'a list \<Rightarrow> 'a list" where
  "unique_from seen [] = []"
| "unique_from seen (x # xs) =
     (if x \<in> set seen then unique_from seen xs else x # unique_from (x # seen) xs)"

definition unique :: "'a list \<Rightarrow> 'a list" where
  "unique xs = unique_from [] xs"

definition produtos_disponiveis :: "'n table \<Rightarrow> string option list" where
  "produtos_disponiveis df = unique (map produto df)"

subsection \<open>Filter\<close>

text \<open>
  Lines 96 to 98. \<open>between\<close> is inclusive on both sides (its default); \<open>isin\<close> is
  membership in the selected labels (a \<open>None\<close> label is in the selection when \<open>None\<close>
  is); the two boolean columns are combined row by row and \<open>loc\<close> keeps the rows
  whose flag is true, in the table's order.
\<close>

definition between :: "date \<Rightarrow> date \<Rightarrow> date \<Rightarrow> bool" where
  "between x left right = (left \<le> x \<and> x \<le> right)"

definition isin :: "string option \<Rightarrow> string option list \<Rightarrow> bool" where
  "isin x vals = (x \<in> set vals)"

definition mascara_datas :: "'n table \<Rightarrow> date \<Rightarrow> date \<Rightarrow> bool list" where
  "mascara_datas df inicio fim = map (\<lambda>r. between (dt_date (data r)) inicio fim) df"

definition mascara_produtos :: "'n table \<Rightarrow> string option list \<Rightarrow> bool list" where
  "mascara_produtos df sel = map (\<lambda>r. isin (produto r) sel) df"

definition loc :: "'a list \<Rightarrow> bool list \<Rightarrow> 'a list" where
  "loc df flags = map fst (filter snd (zip df flags))"

definition df_filt :: "'n table \<Rightarrow> date \<Rightarrow> date \<Rightarrow> string option list \<Rightarrow> 'n table" where
  "df_filt df inicio fim sel =
     loc df (map2 (\<and>) (mascara_datas df inicio fim) (mascara_produtos df sel))"

subsection \<open>Indicators\<close>

text \<open>
  Lines 101 to 105. \<open>sum()\<close> adds the column up from 0 in the type of the column, so
  it is 0 on an empty column.

  Python's \<open>/\<close> has no value at a divisor 0: it raises \<open>ZeroDivisionError\<close> (numpy
  gives \<open>inf\<close> or \<open>nan\<close> there, not a number either), which \<open>truediv\<close> returns as
  an error. Line 105 divides only when the total objective is truthy, that is not 0,
  and is the integer 0 otherwise.
\<close>

definition series_sum :: "'n::comm_monoid_add list \<Rightarrow> 'n" where
  "series_sum xs = fold (\<lambda>x acc. acc + x) xs 0"

definition total_vendas :: "('d, 'n::comm_monoid_add) sale list \<Rightarrow> 'n" where
  "total_vendas df = series_sum (map vendas df)"

definition total_obj :: "('d, 'n::comm_monoid_add) sale list \<Rightarrow> 'n" where
  "total_obj df = series_sum (map objectivo df)"

definition total_lucro :: "('d, 'n::comm_monoid_add) sale list \<Rightarrow> 'n" where
  "total_lucro df = series_sum (map lucro df)"

definition truediv :: "rat \<Rightarrow> rat \<Rightarrow> error + rat" where
  "truediv a b = (if b = 0 then Inl ZeroDivisionError else Inr (a / b))"

definition desvio_pct :: "('d, rat) sale list \<Rightarrow> error + rat" where
  "desvio_pct df =
     (if total_obj df \<noteq> 0
      then (case truediv (total_vendas df - total_obj df) (total_obj df) of
              Inl err \<Rightarrow> Inl err
            | Inr q \<Rightarrow> Inr (q * 100))
      else Inr 0)"

subsection \<open>Weekly totals\<close>

text \<open>
  Lines 117 to 122 group the filtered rows with \<open>pd.Grouper(key='data', freq=...)\<close>
  and sum \<open>vendas\<close> in each group.

  The frequency string is parsed by pandas' \<open>to_offset\<close>. \<open>week_aliases\<close> is the
  weekly family of its alias table: \<open>W-MON\<close> is \<open>Week(weekday=0)\<close>, the weekly
  frequency anchored on Monday, and a bare \<open>W\<close> is anchored on Sunday. The dash of
  an alias is the ASCII hyphen-minus: the alias pattern of pandas admits no other
  character between the name and its anchor, and a string it cannot split into
  aliases is rejected with \<open>ValueError: Invalid frequency\<close>. Only the weekly family
  in its canonical spelling is interpreted here. Other spellings that pandas reads
  as a weekly frequency (a multiple such as \<open>1W-MON\<close>, lower case, surrounding
  blanks) and the other families are not in the table: to them \<open>to_offset\<close> answers
  as pandas answers to a name it does not know, and nothing below applies it to one
  of them.

  The string written on line 119 has, between \<open>W\<close> and \<open>MON\<close>, the three bytes
  E2 80 91: the UTF-8 encoding of U+2011, the non-breaking hyphen.
\<close>

datatype offset = Week int

definition week_aliases :: "(string \<times> int) list" where
  "week_aliases =
     [(''W'', 6), (''W-MON'', 0), (''W-TUE'', 1), (''W-WED'', 2), (''W-THU'', 3),
      (''W-FRI'', 4), (''W-SAT'', 5), (''W-SUN'', 6)]"

definition to_offset :: "string \<Rightarrow> error + offset" where
  "to_offset freq =
     (case map_of week_aliases freq of
        Some k \<Rightarrow> Inr (Week k)
      | None \<Rightarrow> Inl (ValueError ''Invalid frequency''))"

definition freq_line_119 :: string where
  "freq_line_119 = ''W'' @ [char_of (0xE2 :: nat), char_of (0x80 :: nat), char_of (0x91 :: nat)] @ ''MON''"

text \<open>
  The bins of a weekly frequency anchored on weekday \<open>k\<close>, as the time grouper of
  pandas builds them with its defaults for a weekly frequency (\<open>closed='right'\<close>,
  \<open>label='right'\<close>):
  \<^item> \<open>rollforward k d\<close> is the first day on or after \<open>d\<close> whose weekday is \<open>k\<close>;
    \<open>week_add\<close> and \<open>week_sub\<close> are \<open>d + Week(weekday=k)\<close> and
    \<open>d - Week(weekday=k)\<close>; \<open>date_range\<close> lists the anchored days from the first
    edge to the last;
  \<^item> the edges run from \<open>min - freq\<close> to \<open>max + freq\<close>, and the last edge is dropped
    when the edge before it already covers the maximum;
  \<^item> a bin is the interval from one edge (excluded) to the next edge (included) and is
    labelled with the next edge, so a bin anchored on Monday ends on its Monday;
  \<^item> every bin from the first to the last is in the result, and the sum of a bin
    without rows is 0.
  Edges are compared by day: pandas moves each edge to the last instant of its day, so
  the time of day never moves a row into another bin. An empty table gives no bin.
\<close>

definition rollforward :: "int \<Rightarrow> date \<Rightarrow> date" where
  "rollforward k d = d + (k - weekday d) mod 7"

definition week_add :: "int \<Rightarrow> date \<Rightarrow> date" where
  "week_add k d = (if weekday d \<noteq> k then rollforward k d else d + 7)"

definition week_sub :: "int \<Rightarrow> date \<Rightarrow> date" where
  "week_sub k d = (if weekday d \<noteq> k then rollforward k d - 7 else d - 7)"

function date_range :: "date \<Rightarrow> date \<Rightarrow> date list" where
  "date_range a b = (if b < a then [] else a # date_range (a + 7) b)"
  by pat_completeness auto
termination
  by (relation "measure (\<lambda>(a, b). nat (b - a + 1))") auto

declare date_range.simps [simp del]

definition time_bins :: "int \<Rightarrow> date list \<Rightarrow> date list" where
  "time_bins k days =
     (case days of
        [] \<Rightarrow> []
      | d # ds \<Rightarrow>
          (let lo = fold min ds d; hi = fold max ds d;
               binner = date_range (week_sub k lo) (week_add k hi)
           in if hi \<le> last (butlast binner) then butlast binner else binner))"

definition bin_sum :: "'n::comm_monoid_add table \<Rightarrow> date \<Rightarrow> date \<Rightarrow> 'n" where
  "bin_sum df lo hi =
     series_sum (map vendas (filter (\<lambda>r. lo < dt_date (data r) \<and> dt_date (data r) \<le> hi) df))"

definition resample_sum :: "int \<Rightarrow> 'n::comm_monoid_add table \<Rightarrow> (date \<times> 'n) list" where
  "resample_sum k df =
     (let binner = time_bins k (map (\<lambda>r. dt_date (data r)) df)
      in map (\<lambda>(lo, hi). (hi, bin_sum df lo hi)) (zip binner (tl binner)))"

definition groupby_freq ::
  "string \<Rightarrow> 'n::comm_monoid_add table \<Rightarrow> error + (date \<times> 'n) list" where
  "groupby_freq freq df =
     (case to_offset freq of
        Inl err \<Rightarrow> Inl err
      | Inr (Week k) \<Rightarrow> Inr (resample_sum k df))"

definition df_semana :: "'n::comm_monoid_add table \<Rightarrow> error + (date \<times> 'n) list" where
  "df_semana df = groupby_freq freq_line_119 df"

subsection \<open>Totals per product\<close>

text \<open>
  Lines 136 to 141: \<open>groupby('produto')\<close> makes one group per label, in sorted order
  of the labels, and sums \<open>vendas\<close> and \<open>objectivo\<close> in each. With its default
  \<open>dropna=True\<close> it makes no group for the label \<open>None\<close>: the rows without a label
  are in no group.
\<close>

definition group_keys :: "('d, 'n) sale list \<Rightarrow> string list" where
  "group_keys df = sort (remdups (List.map_filter produto df))"

definition group_sum ::
  "(('d, 'n) sale \<Rightarrow> 'n::comm_monoid_add) \<Rightarrow> ('d, 'n) sale list \<Rightarrow> string \<Rightarrow> 'n" where
  "group_sum col df p = series_sum (map col (filter (\<lambda>r. produto r = Some p) df))"

definition df_prod :: "('d, 'n::comm_monoid_add) sale list \<Rightarrow> (string \<times> 'n \<times> 'n) list" where
  "df_prod df =
     map (\<lambda>p. (p, group_sum vendas df p, group_sum objectivo df p)) (group_keys df)"

subsection \<open>The script\<close>

text \<open>
  The user is the two answers of the widgets: the dates picked in the date input,
  given its bounds (a range input answers with 0, 1 or 2 dates, and line 79 unpacks
  exactly two), and the labels picked among the options. \<open>sidebar\<close> is lines 76 to
  93, \<open>render\<close> lines 96 to 165, \<open>app\<close> the whole script at clock \<open>now\<close> with cache
  \<open>c\<close>. \<open>st.date_input\<close> needs dates for its bounds and its default: called with
  \<open>NaT\<close> it raises. An exception ends the run where it is raised: what was rendered
  before stays on the page, nothing after it is rendered.
\<close>

record user =
  pick_dates :: "date \<Rightarrow> date \<Rightarrow> date list"
  pick_products :: "string option list \<Rightarrow> string option list"

definition sidebar ::
  "user \<Rightarrow> dataframe \<Rightarrow> event list \<times> (date \<times> date \<times> string option list) outcome" where
  "sidebar u df =
     (case date_bounds df of
        (Some min_day, Some max_day) \<Rightarrow>
          (case pick_dates u min_day max_day of
             [inicio, fim] \<Rightarrow>
               ([DateInput min_day max_day, Multiselect (produtos_disponiveis df)],
                Returned (inicio, fim, pick_products u (produtos_disponiveis df)))
           | _ # _ # _ # _ \<Rightarrow>
               ([DateInput min_day max_day], Raised (ValueError ''too many values to unpack''))
           | _ \<Rightarrow>
               ([DateInput min_day max_day], Raised (ValueError ''not enough values to unpack'')))
      | _ \<Rightarrow> ([], Raised DateInputError))"

definition render ::
  "dataframe \<Rightarrow> date \<Rightarrow> date \<Rightarrow> string option list \<Rightarrow> event list \<times> unit outcome" where
  "render df inicio fim sel =
     (let f = df_filt df inicio fim sel
      in case desvio_pct f of
           Inl err \<Rightarrow> ([], Raised err)
         | Inr desvio \<Rightarrow>
             (let kpis = [Metrics (total_vendas f) (total_obj f) (total_lucro f) desvio, Divider]
              in case df_semana f of
                   Inl err \<Rightarrow> (kpis, Raised err)
                 | Inr semana \<Rightarrow>
                     (kpis @ [LineChart semana, BarChart (df_prod f),
                              PieChart (map (\<lambda>(p, v, obj). (p, v)) (df_prod f)), Divider,
                              DetailTable f],
                      Returned ())))"

definition app ::
  "nat \<Rightarrow> env \<Rightarrow> database \<Rightarrow> user \<Rightarrow> cache_entry option
     \<Rightarrow> (event list \<times> unit outcome) \<times> cache_entry option" where
  "app now e db u c =
     (case cached_load_data now e db c of
        ((evs, out), c') \<Rightarrow>
          (let top = [PageConfig, Title, Header] @ evs
           in case out of
                Stopped \<Rightarrow> ((top, Stopped), c')
              | Raised err \<Rightarrow> ((top, Raised err), c')
              | Returned df \<Rightarrow>
                  (case sidebar u df of
                     (evs2, Stopped) \<Rightarrow> ((top @ evs2, Stopped), c')
                   | (evs2, Raised err) \<Rightarrow> ((top @ evs2, Raised err), c')
                   | (evs2, Returned (inicio, fim, sel)) \<Rightarrow>
                       (case render df inicio fim sel of
                          (evs3, out3) \<Rightarrow> ((top @ evs2 @ evs3, out3), c')))))"

subsection \<open>Rows for examples\<close>

text \<open>A row dated at midnight of the day \<open>y-m-d\<close>, with the label \<open>p\<close>.\<close>

definition sale_on :: "int \<Rightarrow> nat \<Rightarrow> int \<Rightarrow> string \<Rightarrow> rat \<Rightarrow> rat \<Rightarrow> rat \<Rightarrow> (timestamp, rat) sale" where
  "sale_on y m d p v obj l =
     \<lparr>data = (ymd2ord y m d, 0), produto = Some p, vendas = v, objectivo = obj, lucro = l\<rparr>"

text \<open>The same row as the query returns it, its date a DATE.\<close>

definition raw_sale_on :: "int \<Rightarrow> nat \<Rightarrow> int \<Rightarrow> string \<Rightarrow> rat \<Rightarrow> rat \<Rightarrow> rat \<Rightarrow> (sql_value, rat) sale" where
  "raw_sale_on y m d p v obj l =
     \<lparr>data = SqlDate (ymd2ord y m d), produto = Some p, vendas = v, objectivo = obj, lucro = l\<rparr>"

text \<open>
  A row without a label, and a row of a table whose amounts are 64-bit integers.
\<close>

definition unlabelled_sale_on :: "int \<Rightarrow> nat \<Rightarrow> int \<Rightarrow> rat \<Rightarrow> rat \<Rightarrow> rat \<Rightarrow> (timestamp, rat) sale" where
  "unlabelled_sale_on y m d v obj l =
     \<lparr>data = (ymd2ord y m d, 0), produto = None, vendas = v, objectivo = obj, lucro = l\<rparr>"


text \<open>
  Four environments: a secrets file whose only entry is \<open>DATABASE_URL\<close>; a secrets
  file without that entry; no secrets file at all; and no secrets file, with the
  connection string given as the parameter \<open>db\<close> of the page URL. None but the last
  has a query parameter. Then a database that answers every connection string with
  the same rows, and the user who leaves both widgets at their defaults (the whole
  range of dates, every label).
\<close>

definition env_with_secret :: "string \<Rightarrow> env" where
  "env_with_secret url =
     \<lparr>secrets = Some [''DATABASE_URL'' \<mapsto> url], query_params = Map.empty\<rparr>"

definition env_unset :: env where
  "env_unset = \<lparr>secrets = Some Map.empty, query_params = Map.empty\<rparr>"

definition env_no_secrets_file :: env where
  "env_no_secrets_file = \<lparr>secrets = None, query_params = Map.empty\<rparr>"

definition env_query_param :: "string \<Rightarrow> env" where
  "env_query_param url = \<lparr>secrets = None, query_params = [''db'' \<mapsto> [url]]\<rparr>"

definition db_of :: "(sql_value, rat) sale list \<Rightarrow> database" where
  "db_of rows = (\<lambda>url. Rows rows)"

definition default_user :: user where
  "default_user = \<lparr>pick_dates = (\<lambda>min_day max_day. [min_day, max_day]), pick_products = (\<lambda>opts. opts)\<rparr>"

text \<open>\<open>fresh now c\<close>: the cache \<open>c\<close> holds an entry that has not expired at \<open>now\<close>.\<close>

definition fresh :: "nat \<Rightarrow> cache_entry option \<Rightarrow> bool" where
  "fresh now c = (case c of None \<Rightarrow> False | Some ent \<Rightarrow> now < stored_at ent + ttl)"

lemmas calendar_defs =
  ymd2ord_def days_before_year_def days_before_month_def is_leap_def weekday_def

section \<open>Properties\<close>

subsection \<open>Sums and masks\<close>

lemma fold_add_sum_list:
  "fold (\<lambda>x acc. acc + x) xs (a :: 'n::comm_monoid_add) = a + sum_list xs"
  by (induction xs arbitrary: a) (simp_all add: add.assoc)

lemma series_sum_sum_list: "series_sum xs = sum_list xs"
  by (simp add: series_sum_def fold_add_sum_list)

lemma loc_map: "loc xs (map p xs) = filter p xs"
  by (induction xs) (simp_all add: loc_def)

lemma df_filt_filter:
  "df_filt df inicio fim sel =
     filter (\<lambda>r. between (dt_date (data r)) inicio fim \<and> isin (produto r) sel) df"
proof -
  have "map2 (\<and>) (mascara_datas df inicio fim) (mascara_produtos df sel) =
          map (\<lambda>r. between (dt_date (data r)) inicio fim \<and> isin (produto r) sel) df"
    by (induction df) (simp_all add: mascara_datas_def mascara_produtos_def)
  then show ?thesis
    by (simp add: df_filt_def loc_map)
qed

subsection \<open>Filter stage\<close>

text \<open>
  Claim C3. The filter keeps exactly the rows whose day lies between \<open>inicio\<close> and
  \<open>fim\<close>, both included, and whose product is one of the selected labels, in the
  order and with the multiplicity of the table. The comparison is on the day: the time
  of day of a row plays no part. In particular a row dated on the end boundary, at
  any time of day, with a selected product, is kept.
\<close>

theorem filter_stage_exact:
  "df_filt df inicio fim sel =
     filter (\<lambda>r. inicio \<le> dt_date (data r) \<and> dt_date (data r) \<le> fim \<and> produto r \<in> set sel) df
   \<and> dt_date (d, t) = d
   \<and> (\<forall>r t. r \<in> set df \<and> data r = (fim, t) \<and> inicio \<le> fim \<and> produto r \<in> set sel
          \<longrightarrow> r \<in> set (df_filt df inicio fim sel))"
  by (auto simp: df_filt_filter between_def isin_def dt_date_def)

theorem filter_stage_exact_witness:
  "\<lparr>data = (ymd2ord 2024 1 15, 72000000000000), produto = Some ''A'', vendas = 200,
     objectivo = 80, lucro = 50\<rparr>
     \<in> set (df_filt
              [sale_on 2024 1 8 ''A'' 100 80 20,
               \<lparr>data = (ymd2ord 2024 1 15, 72000000000000), produto = Some ''A'', vendas = 200,
                 objectivo = 80, lucro = 50\<rparr>,
               sale_on 2024 1 16 ''A'' 1 1 1, sale_on 2024 1 15 ''B'' 7 7 7]
              (ymd2ord 2024 1 8) (ymd2ord 2024 1 15) [Some ''A''])"
  using filter_stage_exact
    [of "[sale_on 2024 1 8 ''A'' 100 80 20,
          \<lparr>data = (ymd2ord 2024 1 15, 72000000000000), produto = Some ''A'', vendas = 200,
            objectivo = 80, lucro = 50\<rparr>,
          sale_on 2024 1 16 ''A'' 1 1 1, sale_on 2024 1 15 ''B'' 7 7 7]"
        "ymd2ord 2024 1 8" "ymd2ord 2024 1 15" "[Some ''A'']"]
  by (simp add: sale_on_def calendar_defs)

subsection \<open>Indicators\<close>

lemma desvio_pct_value:
  "desvio_pct df =
     Inr (if total_obj df = 0 then 0
          else (total_vendas df - total_obj df) / total_obj df * 100)"
  by (simp add: desvio_pct_def truediv_def)

lemma total_int64:
  fixes df :: "('d, 64 word) sale list"
  shows "total_vendas df = word_of_int (\<Sum>r\<leftarrow>df. sint (vendas r))"
    and "total_obj df = word_of_int (\<Sum>r\<leftarrow>df. sint (objectivo r))"
    and "total_lucro df = word_of_int (\<Sum>r\<leftarrow>df. sint (lucro r))"
  by (induction df) (simp_all add: total_vendas_def total_obj_def total_lucro_def series_sum_sum_list)




text \<open>
  Claim C4. With no product selected the filter keeps no row, whatever the table and
  the date range, and over that empty result the three totals are 0 and the deviation
  is the value 0: the division of line 105 is not reached.
\<close>

theorem empty_selection:
  "df_filt df inicio fim [] = []
   \<and> total_vendas (df_filt df inicio fim []) = 0
   \<and> total_obj (df_filt df inicio fim []) = 0
   \<and> total_lucro (df_filt df inicio fim []) = 0
   \<and> desvio_pct (df_filt df inicio fim []) = Inr 0"
  by (simp add: df_filt_filter isin_def total_vendas_def total_obj_def total_lucro_def
      desvio_pct_def series_sum_def)

subsection \<open>Totals per product\<close>

lemma sum_by_key:
  fixes f :: "'a \<Rightarrow> 'n::comm_monoid_add"
  assumes "finite K" and "key ` set xs \<subseteq> K"
  shows "(\<Sum>k\<in>K. sum_list (map f (filter (\<lambda>x. key x = k) xs))) = sum_list (map f xs)"
  using assms(2)
proof (induction xs)
  case Nil
  show ?case by simp
next
  case (Cons x xs)
  have "(\<Sum>k\<in>K. sum_list (map f (filter (\<lambda>y. key y = k) (x # xs))))
          = (\<Sum>k\<in>K. (if k = key x then f x else 0) + sum_list (map f (filter (\<lambda>y. key y = k) xs)))"
    by (rule sum.cong) auto
  also have "\<dots> = (\<Sum>k\<in>K. if k = key x then f x else 0)
                  + (\<Sum>k\<in>K. sum_list (map f (filter (\<lambda>y. key y = k) xs)))"
    by (simp add: sum.distrib)
  also have "(\<Sum>k\<in>K. if k = key x then f x else 0) = f x"
    using assms(1) Cons.prems by (simp add: sum.delta)
  finally show ?case
    using Cons by simp
qed

lemma set_map_filter_produto:
  "set (List.map_filter produto df) = {p. \<exists>r \<in> set df. produto r = Some p}"
  by (induction df) (auto simp: List.map_filter_simps split: option.splits)

lemma set_group_keys: "set (group_keys df) = {p. Some p \<in> produto ` set df}"
proof -
  have "(\<exists>r \<in> set df. produto r = Some p) \<longleftrightarrow> Some p \<in> produto ` set df" for p
    by (metis image_iff)
  then show ?thesis
    by (simp add: group_keys_def set_map_filter_produto)
qed

lemma distinct_group_keys: "distinct (group_keys df)"
  by (simp add: group_keys_def)

lemma df_prod_vendas_labelled:
  fixes df :: "('d, 'n::comm_monoid_add) sale list"
  shows "(\<Sum>(p, v, obj)\<leftarrow>df_prod df. v) = total_vendas (filter (\<lambda>r. produto r \<noteq> None) df)"
proof -
  let ?xs = "filter (\<lambda>r. produto r \<noteq> None) df"
  have grp: "filter (\<lambda>r. produto r = Some p) df = filter (\<lambda>r. the (produto r) = p) ?xs" for p
    by (induction df) auto
  have "(\<Sum>(p, v, obj)\<leftarrow>df_prod df. v) = (\<Sum>p\<leftarrow>group_keys df. group_sum vendas df p)"
    by (simp add: df_prod_def comp_def)
  also have "\<dots> = (\<Sum>p\<in>set (group_keys df). group_sum vendas df p)"
    by (rule sum_list_distinct_conv_sum_set) (rule distinct_group_keys)
  also have "\<dots> = (\<Sum>p\<in>set (group_keys df).
                      sum_list (map vendas (filter (\<lambda>r. the (produto r) = p) ?xs)))"
    by (simp add: group_sum_def series_sum_sum_list grp)
  also have "\<dots> = sum_list (map vendas ?xs)"
  proof (rule sum_by_key)
    show "finite (set (group_keys df))"
      by simp
    show "(\<lambda>r. the (produto r)) ` set ?xs \<subseteq> set (group_keys df)"
      by (auto simp: set_group_keys intro: rev_image_eqI)
  qed
  finally show ?thesis
    by (simp add: total_vendas_def series_sum_sum_list)
qed

text \<open>
  Claim C5, as the code has it. The per-product aggregation has one entry for each
  label that occurs in the filtered table, each label once, and the entry of a label
  holds the sum of \<open>vendas\<close> over the rows with that label. Added over all entries,
  these sums give the total of \<open>vendas\<close> over the rows of the filtered table that
  have a label; so they give the total of the indicators when every row of the
  filtered table has a label. The sums are taken in the type of the column, whose
  addition is associative and commutative.
\<close>

theorem per_product_sums_to_total:
  fixes df :: "'n::comm_monoid_add table" and inicio fim :: date
    and sel :: "string option list"
  defines "f \<equiv> df_filt df inicio fim sel"
  assumes "f \<noteq> []"
  shows "distinct (map fst (df_prod f))
   \<and> set (map fst (df_prod f)) = {p. Some p \<in> produto ` set f}
   \<and> (\<forall>(p, v, obj) \<in> set (df_prod f).
         v = sum_mset (image_mset vendas (filter_mset (\<lambda>r. produto r = Some p) (mset f))))
   \<and> (\<Sum>(p, v, obj)\<leftarrow>df_prod f. v) = total_vendas (filter (\<lambda>r. produto r \<noteq> None) f)
   \<and> ((\<forall>r \<in> set f. produto r \<noteq> None) \<longrightarrow> (\<Sum>(p, v, obj)\<leftarrow>df_prod f. v) = total_vendas f)"
proof (intro conjI impI)
  show "distinct (map fst (df_prod f))"
    by (simp add: df_prod_def comp_def distinct_group_keys)
  show "set (map fst (df_prod f)) = {p. Some p \<in> produto ` set f}"
    by (simp add: df_prod_def comp_def set_group_keys)
  show "\<forall>(p, v, obj) \<in> set (df_prod f).
         v = sum_mset (image_mset vendas (filter_mset (\<lambda>r. produto r = Some p) (mset f)))"
    by (auto simp: df_prod_def group_sum_def series_sum_sum_list sum_mset_sum_list [symmetric])
  show "(\<Sum>(p, v, obj)\<leftarrow>df_prod f. v) = total_vendas (filter (\<lambda>r. produto r \<noteq> None) f)"
    by (rule df_prod_vendas_labelled)
next
  assume "\<forall>r \<in> set f. produto r \<noteq> None"
  then have "filter (\<lambda>r. produto r \<noteq> None) f = f"
    by (simp add: filter_id_conv)
  with df_prod_vendas_labelled [of f]
  show "(\<Sum>(p, v, obj)\<leftarrow>df_prod f. v) = total_vendas f"
    by simp
qed

theorem per_product_sums_to_total_witness:
  "df_filt [sale_on 2024 1 8 ''B'' 50 100 5, sale_on 2024 1 8 ''A'' 100 80 20,
            sale_on 2024 1 15 ''B'' 200 80 50]
        (ymd2ord 2024 1 8) (ymd2ord 2024 1 15) [Some ''A'', Some ''B''] \<noteq> []
   \<and> (\<Sum>(p, v, obj)\<leftarrow>df_prod
          (df_filt [sale_on 2024 1 8 ''B'' 50 100 5, sale_on 2024 1 8 ''A'' 100 80 20,
                    sale_on 2024 1 15 ''B'' 200 80 50]
             (ymd2ord 2024 1 8) (ymd2ord 2024 1 15) [Some ''A'', Some ''B'']). v) = 350"
proof -
  let ?df = "[sale_on 2024 1 8 ''B'' 50 100 5, sale_on 2024 1 8 ''A'' 100 80 20,
              sale_on 2024 1 15 ''B'' 200 80 50]"
  let ?f = "df_filt ?df (ymd2ord 2024 1 8) (ymd2ord 2024 1 15) [Some ''A'', Some ''B'']"
  have f: "?f = ?df"
    by (simp add: df_filt_filter between_def isin_def dt_date_def sale_on_def calendar_defs)
  have ne: "?f \<noteq> []"
    unfolding f by simp
  have lab: "\<forall>r \<in> set ?f. produto r \<noteq> None"
    unfolding f by (simp add: sale_on_def)
  have "total_vendas ?f = 350"
    unfolding f by (simp add: total_vendas_def series_sum_def sale_on_def)
  with per_product_sums_to_total [OF ne] ne lab show ?thesis
    by simp
qed

text \<open>
  The claim as stated fails on a table with a row that has no label. With the default
  selection, which holds every label of the table and \<open>None\<close>, the filter keeps both
  rows and the total of the indicators is 3; the per-product aggregation has the one
  entry of label A, and its sums add up to 1.
\<close>

theorem null_label_counterexample:
  "produtos_disponiveis [sale_on 2024 1 8 ''A'' 1 1 1, unlabelled_sale_on 2024 1 8 2 2 2]
     = [Some ''A'', None]
   \<and> df_filt [sale_on 2024 1 8 ''A'' 1 1 1, unlabelled_sale_on 2024 1 8 2 2 2]
        (ymd2ord 2024 1 8) (ymd2ord 2024 1 8) [Some ''A'', None]
     = [sale_on 2024 1 8 ''A'' 1 1 1, unlabelled_sale_on 2024 1 8 2 2 2]
   \<and> total_vendas [sale_on 2024 1 8 ''A'' 1 1 1, unlabelled_sale_on 2024 1 8 2 2 2] = 3
   \<and> df_prod [sale_on 2024 1 8 ''A'' 1 1 1, unlabelled_sale_on 2024 1 8 2 2 2]
     = [(''A'', 1, 1)]
   \<and> (\<Sum>(p, v, obj)\<leftarrow>df_prod [sale_on 2024 1 8 ''A'' 1 1 1,
                                unlabelled_sale_on 2024 1 8 2 2 2]. v) = 1"
  by code_simp

subsection \<open>The loader and its cache\<close>

lemma database_url_absent:
  "database_url e = Inr None \<longleftrightarrow>
     (\<exists>toml. secrets e = Some toml
        \<and> (toml ''DATABASE_URL'' = None \<or> toml ''DATABASE_URL'' = Some []))
     \<and> query_params e ''db'' = None"
  by (auto simp: database_url_def query_param_db_def split: option.splits list.splits)

lemma database_url_no_secrets_file:
  "secrets e = None \<Longrightarrow> database_url e = Inl FileNotFoundError"
  by (simp add: database_url_def)

lemma cached_load_data_stale:
  "\<not> fresh now c \<Longrightarrow>
     cached_load_data now e db c =
       (case load_data e db of
          (evs, Returned df) \<Rightarrow> ((evs, Returned df), Some \<lparr>cached = df, stored_at = now\<rparr>)
        | (evs, out) \<Rightarrow> ((evs, out), None))"
  by (simp add: cached_load_data_def fresh_def split: option.splits)

lemma load_data_absent:
  "database_url e = Inr None \<Longrightarrow> load_data e db = ([ErrorBox], Stopped)"
  by (simp add: load_data_def)

lemma app_absent:
  "database_url e = Inr None \<Longrightarrow> \<not> fresh now c \<Longrightarrow>
     app now e db u c = (([PageConfig, Title, Header, ErrorBox], Stopped), None)"
  by (simp add: app_def cached_load_data_stale load_data_absent)

lemma load_data_present:
  "database_url e = Inr (Some url) \<Longrightarrow> db url = Rows rows \<Longrightarrow>
     load_data e db = ([Query url], Returned (map coerce_data rows))"
  by (simp add: load_data_def)

lemma load_data_no_secrets_file:
  "secrets e = None \<Longrightarrow> load_data e db = ([], Raised FileNotFoundError)"
  by (simp add: load_data_def database_url_no_secrets_file)

text \<open>
  What the loader does when a secrets file exists. The connection string is then
  absent exactly when the secret \<open>DATABASE_URL\<close> is missing or empty and the page URL
  has no parameter \<open>db\<close>; the loader shows the error box and stops, without a query,
  and a run that had to call the loader ends there. When the connection string is
  present and the query answers with rows, the loader sends that one query and returns
  all the rows, the column \<open>data\<close> coerced to timestamps and the other columns
  unchanged.
\<close>

lemma loader_with_secrets_file:
  assumes "secrets e = Some toml"
  shows "(database_url e = Inr None \<longleftrightarrow>
      (toml ''DATABASE_URL'' = None \<or> toml ''DATABASE_URL'' = Some [])
      \<and> query_params e ''db'' = None)
   \<and> (database_url e = Inr None \<longrightarrow>
        load_data e db = ([ErrorBox], Stopped)
        \<and> (\<not> fresh now c \<longrightarrow>
             app now e db u c = (([PageConfig, Title, Header, ErrorBox], Stopped), None)))
   \<and> (database_url e = Inr (Some url) \<and> db url = Rows rows \<longrightarrow>
        load_data e db = ([Query url], Returned (map coerce_data rows))
        \<and> map data (map coerce_data rows) = map (\<lambda>r. to_datetime (data r)) rows
        \<and> map (\<lambda>r. (produto r, vendas r, objectivo r, lucro r)) (map coerce_data rows)
            = map (\<lambda>r. (produto r, vendas r, objectivo r, lucro r)) rows)"
proof (intro conjI impI)
  show "database_url e = Inr None \<longleftrightarrow>
      (toml ''DATABASE_URL'' = None \<or> toml ''DATABASE_URL'' = Some [])
      \<and> query_params e ''db'' = None"
    using assms by (simp add: database_url_absent)
qed (simp_all add: load_data_absent app_absent load_data_present coerce_data_def)

text \<open>
  Claim C8, evaluated where no secrets file exists. Line 40 raises
  \<open>FileNotFoundError\<close> before the test of line 41: the loader shows no error box and
  does not stop the run by \<open>st.stop()\<close>, the run ends by that exception right after
  the page frame. This also happens when the connection string is given as the
  parameter \<open>db\<close> of the page URL, which is then never read: no query is sent and no
  table returned. Where a secrets file exists and only lacks the entry, the loader
  does show the error box and stop.
\<close>

theorem loader_without_secrets_file:
  "database_url env_no_secrets_file = Inl FileNotFoundError
   \<and> load_data env_no_secrets_file db = ([], Raised FileNotFoundError)
   \<and> app now env_no_secrets_file db u None
       = (([PageConfig, Title, Header], Raised FileNotFoundError), None)
   \<and> load_data (env_query_param url) db = ([], Raised FileNotFoundError)
   \<and> load_data env_unset db = ([ErrorBox], Stopped)"
  by (simp add: load_data_def database_url_def query_param_db_def cached_load_data_def app_def
      env_no_secrets_file_def env_query_param_def env_unset_def)

text \<open>
  Claim C9, as the code has it. Let a first call, at time \<open>t1\<close>, find no live entry,
  run the loader and return a table. A second call at a time \<open>t2\<close> less than 3600
  seconds later returns that table and the unchanged cache without running the loader:
  it sends no query and renders nothing, whatever the environment and the database
  are by then. A second call 3600 seconds later or more finds the entry expired and
  runs the loader again. The window runs from the call that stored the table.
\<close>

theorem cache_within_ttl:
  assumes "\<not> fresh t1 c"
    and "cached_load_data t1 e db c = ((evs, Returned df), c1)"
  shows "(t1 \<le> t2 \<and> t2 < t1 + 3600 \<longrightarrow>
            cached_load_data t2 e' db' c1 = (([], Returned df), c1))
       \<and> (t1 + 3600 \<le> t2 \<longrightarrow>
            fst (cached_load_data t2 e' db' c1) = load_data e' db'
            \<and> \<not> fresh t2 c1)"
proof -
  from assms have c1: "c1 = Some \<lparr>cached = df, stored_at = t1\<rparr>"
    by (auto simp: cached_load_data_stale split: prod.splits outcome.splits)
  show ?thesis
    by (auto simp: c1 cached_load_data_def ttl_def fresh_def split: prod.splits outcome.splits)
qed

theorem cache_within_ttl_witness:
  "cached_load_data 3599 env_unset (db_of [])
       (Some \<lparr>cached = [sale_on 2024 1 8 ''A'' 100 80 20], stored_at = 0\<rparr>)
     = (([], Returned [sale_on 2024 1 8 ''A'' 100 80 20]),
        Some \<lparr>cached = [sale_on 2024 1 8 ''A'' 100 80 20], stored_at = 0\<rparr>)
   \<and> fst (cached_load_data 3600 env_unset (db_of [])
       (Some \<lparr>cached = [sale_on 2024 1 8 ''A'' 100 80 20], stored_at = 0\<rparr>))
     = ([ErrorBox], Stopped)"
proof -
  let ?raw = "[raw_sale_on 2024 1 8 ''A'' 100 80 20]"
  let ?df = "[sale_on 2024 1 8 ''A'' 100 80 20]"
  have n: "\<not> fresh 0 None"
    by (simp add: fresh_def)
  have first: "cached_load_data 0 (env_with_secret ''postgresql://host/db'') (db_of ?raw) None
      = (([Query ''postgresql://host/db''], Returned ?df), Some \<lparr>cached = ?df, stored_at = 0\<rparr>)"
    by (simp add: cached_load_data_def load_data_def database_url_def env_with_secret_def
        db_of_def coerce_data_def sale_on_def raw_sale_on_def)
  have l: "load_data env_unset (db_of []) = ([ErrorBox], Stopped)"
    by (simp add: load_data_def database_url_def query_param_db_def env_unset_def)
  from cache_within_ttl [OF n first, of 3599 env_unset "db_of []"]
    cache_within_ttl [OF n first, of 3600 env_unset "db_of []"] l
  show ?thesis by simp
qed

text \<open>
  The claim as stated, for every pair of calls, fails when the first call of the pair
  is itself answered from the cache. A table was stored at time 0. A call at time
  3000 returns it from the cache. A call at time 3700 is less than 3600 seconds after
  that call, yet the entry has expired: the loader runs again and sends a query.
\<close>

theorem cache_window_counterexample:
  "cached_load_data 3000 env_unset (db_of [])
       (Some \<lparr>cached = [sale_on 2024 1 8 ''A'' 100 80 20], stored_at = 0\<rparr>)
     = (([], Returned [sale_on 2024 1 8 ''A'' 100 80 20]),
        Some \<lparr>cached = [sale_on 2024 1 8 ''A'' 100 80 20], stored_at = 0\<rparr>)
   \<and> (3700 :: nat) < 3000 + 3600
   \<and> cached_load_data 3700 (env_with_secret ''postgresql://host/db'')
       (db_of [raw_sale_on 2024 1 9 ''A'' 1 1 1])
       (Some \<lparr>cached = [sale_on 2024 1 8 ''A'' 100 80 20], stored_at = 0\<rparr>)
     = (([Query ''postgresql://host/db''], Returned [sale_on 2024 1 9 ''A'' 1 1 1]),
        Some \<lparr>cached = [sale_on 2024 1 9 ''A'' 1 1 1], stored_at = 3700\<rparr>)"
  by (simp add: cached_load_data_def ttl_def load_data_def database_url_def
      env_with_secret_def db_of_def coerce_data_def sale_on_def raw_sale_on_def)

subsection \<open>Date bounds\<close>

lemma fst_min_prod: "fst (min a b) = min (fst a) (fst (b :: int \<times> nat))"
  by (auto simp: min_def less_eq_prod_def)

lemma fst_max_prod: "fst (max a b) = max (fst a) (fst (b :: int \<times> nat))"
  by (auto simp: max_def less_eq_prod_def)

lemma fst_fold_min: "fst (fold min ts (t :: int \<times> nat)) = fold min (map fst ts) (fst t)"
  by (induction ts arbitrary: t) (simp_all add: fst_min_prod)

lemma fst_fold_max: "fst (fold max ts (t :: int \<times> nat)) = fold max (map fst ts) (fst t)"
  by (induction ts arbitrary: t) (simp_all add: fst_max_prod)

lemma date_bounds_nonempty:
  "df \<noteq> [] \<Longrightarrow>
     date_bounds df = (Some (Min (set (map (\<lambda>r. dt_date (data r)) df))),
                       Some (Max (set (map (\<lambda>r. dt_date (data r)) df))))"
proof (cases df)
  case Nil
  assume "df \<noteq> []"
  with Nil show ?thesis by simp
next
  case (Cons r rs)
  let ?d = "\<lambda>r :: (timestamp, 'a) sale. fst (data r)"
  have "Min (set (?d r # map ?d rs)) = fold min (map ?d rs) (?d r)"
    by (rule Min.set_eq_fold)
  moreover have "Max (set (?d r # map ?d rs)) = fold max (map ?d rs) (?d r)"
    by (rule Max.set_eq_fold)
  ultimately show ?thesis
    by (simp add: date_bounds_def series_min_def series_max_def Cons dt_date_def
        fst_fold_min fst_fold_max comp_def)
qed

lemma date_bounds_empty: "date_bounds [] = (None, None)"
  by (simp add: date_bounds_def series_min_def series_max_def)

lemma sidebar_empty: "sidebar u [] = ([], Raised DateInputError)"
  by (simp add: sidebar_def date_bounds_empty)

text \<open>
  Claim C10, as the code has it. On the empty table the minimum and the maximum of
  the date column are \<open>NaT\<close>: line 76 does not fail, it gives the pair
  \<open>(NaT, NaT)\<close>, which holds no date. The date picker of line 79, called with that
  pair, raises, so a run whose loader returned the empty table ends with that
  exception right after the page frame and the loader's events, with no widget,
  indicator, chart or table rendered. On a table with rows the bounds are the least
  and the greatest day of the column.
\<close>

theorem empty_table_fails:
  "date_bounds [] = (None, None)
   \<and> sidebar u [] = ([], Raised DateInputError)
   \<and> (df \<noteq> [] \<longrightarrow>
        date_bounds df = (Some (Min (set (map (\<lambda>r. dt_date (data r)) df))),
                          Some (Max (set (map (\<lambda>r. dt_date (data r)) df)))))
   \<and> (cached_load_data now e db c = ((evs, Returned []), c') \<longrightarrow>
        app now e db u c = (([PageConfig, Title, Header] @ evs, Raised DateInputError), c'))"
  by (simp add: date_bounds_nonempty date_bounds_empty sidebar_empty app_def)

theorem empty_table_fails_witness:
  "app 0 (env_with_secret ''postgresql://host/db'') (db_of []) default_user None =
     (([PageConfig, Title, Header, Query ''postgresql://host/db''], Raised DateInputError),
      Some \<lparr>cached = [], stored_at = 0\<rparr>)
   \<and> date_bounds [sale_on 2024 1 8 ''A'' 100 80 20, sale_on 2024 1 15 ''A'' 200 80 50]
       = (Some (ymd2ord 2024 1 8), Some (ymd2ord 2024 1 15))"
proof -
  have c: "cached_load_data 0 (env_with_secret ''postgresql://host/db'') (db_of []) None =
      (([Query ''postgresql://host/db''], Returned []), Some \<lparr>cached = [], stored_at = 0\<rparr>)"
    by (simp add: cached_load_data_def load_data_def database_url_def env_with_secret_def db_of_def)
  have "date_bounds [sale_on 2024 1 8 ''A'' 100 80 20, sale_on 2024 1 15 ''A'' 200 80 50]
       = (Some (ymd2ord 2024 1 8), Some (ymd2ord 2024 1 15))"
    using empty_table_fails
      [where df = "[sale_on 2024 1 8 ''A'' 100 80 20, sale_on 2024 1 15 ''A'' 200 80 50]",
        THEN conjunct2, THEN conjunct2, THEN conjunct1]
    by (simp add: sale_on_def dt_date_def calendar_defs)
  moreover have "app 0 (env_with_secret ''postgresql://host/db'') (db_of []) default_user None =
     (([PageConfig, Title, Header, Query ''postgresql://host/db''], Raised DateInputError),
      Some \<lparr>cached = [], stored_at = 0\<rparr>)"
    using empty_table_fails
      [where u = default_user and now = 0 and e = "env_with_secret ''postgresql://host/db''"
        and db = "db_of []" and c = None, THEN conjunct2, THEN conjunct2, THEN conjunct2] c
    by simp
  ultimately show ?thesis by simp
qed

text \<open>
  The claim as stated has the computation of the bounds fail on the empty table. It
  does not: line 76 returns, with \<open>NaT\<close> in the place of each bound, and the failure
  is that of the date picker called with them.
\<close>

theorem empty_bounds_counterexample:
  "date_bounds ([] :: dataframe) = (None, None)
   \<and> sidebar default_user [] = ([], Raised DateInputError)"
  by (simp add: date_bounds_def series_min_def series_max_def sidebar_def)

subsection \<open>Weekly totals: the frequency string\<close>

text \<open>
  \<open>W-MON\<close> is the weekly frequency anchored on Monday. The string of line 119 is not
  an alias: the grouper cannot be built, so \<open>df_semana\<close> raises on every table, and
  every run that reaches line 117 ends there, after the indicators and before any
  chart. No run of the script completes.
\<close>

lemma to_offset_W_MON: "to_offset ''W-MON'' = Inr (Week 0)"
  by (simp add: to_offset_def week_aliases_def)

lemma to_offset_line_119: "to_offset freq_line_119 = Inl (ValueError ''Invalid frequency'')"
  by (simp add: to_offset_def week_aliases_def freq_line_119_def)

lemma df_semana_raises: "df_semana df = Inl (ValueError ''Invalid frequency'')"
  by (simp add: df_semana_def groupby_freq_def to_offset_line_119)

lemma render_raises:
  "render df inicio fim sel = (evs, out) \<Longrightarrow> out = Raised (ValueError ''Invalid frequency'')"
  by (auto simp: render_def df_semana_raises desvio_pct_value Let_def)

lemma app_never_completes: "snd (fst (app now e db u c)) \<noteq> Returned ()"
  by (auto simp: app_def Let_def split: prod.splits outcome.splits dest: render_raises)

subsection \<open>Weekly totals: the bins\<close>

lemma weekday_rollforward_mod: "weekday (rollforward k d) = k mod 7"
proof -
  have "(d + (k - (d + 6) mod 7) mod 7 + 6) mod 7 = ((d + 6) + (k - (d + 6) mod 7) mod 7) mod 7"
    by (simp add: algebra_simps)
  also have "\<dots> = ((d + 6) + (k - (d + 6)) mod 7) mod 7"
    by (simp only: mod_diff_right_eq)
  also have "\<dots> = ((d + 6) + (k - (d + 6))) mod 7"
    by (rule mod_add_right_eq)
  also have "\<dots> = k mod 7"
    by simp
  finally show ?thesis
    by (simp add: weekday_def rollforward_def)
qed

lemma rollforward_bounds: "d \<le> rollforward k d \<and> rollforward k d < d + 7"
  by (simp add: rollforward_def)

lemma same_weekday_dvd: "weekday a = weekday b \<longleftrightarrow> 7 dvd a - b"
proof -
  have "weekday a = weekday b \<longleftrightarrow> 7 dvd (a + 6) - (b + 6)"
    unfolding weekday_def by (simp only: mod_eq_dvd_iff)
  then show ?thesis by simp
qed

lemma same_weekday_close:
  assumes "weekday a = weekday b" and "a < b + 7" and "b < a + 7"
  shows "a = b"
proof -
  from assms(1) have "7 dvd a - b"
    by (simp only: same_weekday_dvd)
  then obtain q where q: "a - b = 7 * q" by (auto simp: dvd_def)
  with assms(2,3) have "q < 1" and "- 1 < q" by linarith+
  then have "q = 0" by linarith
  with q show ?thesis by simp
qed

lemma rollforward_eq_iff:
  assumes "weekday l = k"
  shows "rollforward k d = l \<longleftrightarrow> l - 7 < d \<and> d \<le> l"
proof
  assume "rollforward k d = l"
  with rollforward_bounds [of d k] show "l - 7 < d \<and> d \<le> l" by simp
next
  assume b: "l - 7 < d \<and> d \<le> l"
  from assms have "k mod 7 = k" by (auto simp: weekday_def)
  with assms have w: "weekday (rollforward k d) = weekday l"
    by (simp only: weekday_rollforward_mod)
  from rollforward_bounds [of d k] b
  have "rollforward k d < l + 7" and "l < rollforward k d + 7" by linarith+
  with w show "rollforward k d = l"
    by (rule same_weekday_close)
qed

lemma rollforward_mono:
  assumes "a \<le> b"
  shows "rollforward k a \<le> rollforward k b"
proof (rule ccontr)
  assume "\<not> rollforward k a \<le> rollforward k b"
  then have lt: "rollforward k b < rollforward k a" by simp
  have w: "weekday (rollforward k a) = weekday (rollforward k b)"
    by (simp only: weekday_rollforward_mod)
  from rollforward_bounds [of a k] rollforward_bounds [of b k] assms lt
  have "rollforward k a < rollforward k b + 7" and "rollforward k b < rollforward k a + 7"
    by linarith+
  with w have "rollforward k a = rollforward k b"
    by (rule same_weekday_close)
  with lt show False by simp
qed

lemma rollforward_fixed: "weekday d = k \<Longrightarrow> rollforward k d = d"
  by (simp add: rollforward_def)

lemma week_sub_rollforward: "week_sub k d = rollforward k d - 7"
  by (simp add: week_sub_def rollforward_fixed)

lemma week_add_rollforward:
  "week_add k d = (if weekday d \<noteq> k then rollforward k d else rollforward k d + 7)"
  by (simp add: week_add_def rollforward_fixed)

lemma date_range_steps: "date_range a (a + 7 * int n) = map (\<lambda>i. a + 7 * int i) [0..<Suc n]"
proof (induction n arbitrary: a)
  case 0
  show ?case
    by (simp add: date_range.simps [of a a] date_range.simps [of "a + 7" a])
next
  case (Suc n)
  have "date_range a (a + 7 * int (Suc n)) = a # date_range (a + 7) ((a + 7) + 7 * int n)"
    by (subst date_range.simps) (simp add: algebra_simps)
  also have "\<dots> = a # map (\<lambda>i. (a + 7) + 7 * int i) [0..<Suc n]"
    by (simp only: Suc.IH)
  also have "\<dots> = map (\<lambda>i. a + 7 * int i) [0..<Suc (Suc n)]"
    by (simp add: upt_conv_Cons [of 0] map_Suc_upt [symmetric] comp_def algebra_simps del: upt_Suc)
  finally show ?case .
qed

lemma steps_between:
  assumes "a \<le> b" and "7 dvd b - a"
  obtains n where "b = a + 7 * int n"
proof -
  from assms(2) obtain q where q: "b - a = 7 * q" by (auto simp: dvd_def)
  with assms(1) have "0 \<le> q" by linarith
  then have "b = a + 7 * int (nat q)" using q by simp
  then show thesis by (rule that)
qed

lemma butlast_steps: "butlast (map g [0..<Suc m]) = map g [0..<m]"
  by simp

lemma last_steps: "last (map g [0..<Suc m]) = g m"
  by simp

lemma time_bins_steps:
  assumes A: "A = rollforward k (fold min ds d)" and B: "B = rollforward k (fold max ds d)"
    and n: "B = A + 7 * int n"
  shows "time_bins k (d # ds) = map (\<lambda>i. A - 7 + 7 * int i) [0..<Suc (Suc n)]"
proof -
  let ?hi = "fold max ds d"
  let ?g = "\<lambda>i. A - 7 + 7 * int i"
  have r1: "date_range (A - 7) B = map ?g [0..<Suc (Suc n)]"
    using date_range_steps [of "A - 7" "Suc n"] n by (simp add: algebra_simps)
  have r2: "date_range (A - 7) (B + 7) = map ?g [0..<Suc (Suc (Suc n))]"
    using date_range_steps [of "A - 7" "Suc (Suc n)"] n by (simp add: algebra_simps)
  show ?thesis
  proof (cases "weekday ?hi = k")
    case True
    then have "B = ?hi" by (simp add: B rollforward_fixed)
    moreover have "last (butlast (map ?g [0..<Suc (Suc (Suc n))])) = B"
      by (simp only: butlast_steps last_steps) (simp add: n)
    moreover have "butlast (map ?g [0..<Suc (Suc (Suc n))]) = map ?g [0..<Suc (Suc n)]"
      by (rule butlast_steps)
    ultimately show ?thesis
      using True r2
      by (simp add: time_bins_def week_sub_rollforward week_add_rollforward A [symmetric] B [symmetric]
          Let_def del: upt_Suc map_append)
  next
    case False
    have "last (butlast (map ?g [0..<Suc (Suc n)])) = B - 7"
      by (simp only: butlast_steps last_steps) (simp add: n)
    moreover have "\<not> ?hi \<le> B - 7"
      using rollforward_bounds [of ?hi k] by (simp add: B)
    ultimately show ?thesis
      using False r1
      by (simp add: time_bins_def week_sub_rollforward week_add_rollforward A [symmetric] B [symmetric]
          Let_def del: upt_Suc map_append)
  qed
qed

lemma zip_tl_steps:
  "zip (map g [0..<Suc n]) (tl (map g [0..<Suc n])) = map (\<lambda>i. (g i, g (Suc i))) [0..<n]"
  by (rule nth_equalityI) (auto simp: nth_tl simp del: upt_Suc)


lemma set_date_range:
  assumes "b = a + 7 * int n"
  shows "l \<in> set (date_range a b) \<longleftrightarrow> a \<le> l \<and> l \<le> b \<and> 7 dvd l - a"
proof
  assume "l \<in> set (date_range a b)"
  then obtain i where "i \<le> n" and "l = a + 7 * int i"
    by (auto simp: assms date_range_steps simp del: upt_Suc)
  then show "a \<le> l \<and> l \<le> b \<and> 7 dvd l - a"
    by (simp add: assms)
next
  assume h: "a \<le> l \<and> l \<le> b \<and> 7 dvd l - a"
  then obtain q where q: "l - a = 7 * q" by (auto simp: dvd_def)
  with h have "0 \<le> q" and "q \<le> int n" by (simp_all add: assms)
  then have "nat q < Suc n" and "l = a + 7 * int (nat q)"
    using q by simp_all
  then have "l \<in> (\<lambda>i. a + 7 * int i) ` {0..<Suc n}"
    by (intro image_eqI [of _ _ "nat q"]) simp_all
  then show "l \<in> set (date_range a b)"
    by (simp add: assms date_range_steps del: upt_Suc)
qed

lemma sorted_date_range: "sorted_wrt (<) (date_range a (a + 7 * int n))"
proof -
  have "sorted_wrt (\<lambda>i j. a + 7 * int i < a + 7 * int j) [0..<Suc n]"
    by (rule sorted_wrt_mono_rel [OF _ sorted_wrt_upt]) simp
  then show ?thesis
    by (simp add: date_range_steps sorted_wrt_map del: upt_Suc)
qed

lemma fold_min_le_fold_max: "fold min ds d \<le> fold max ds (d :: int)"
proof -
  have "Min (set (d # ds)) \<le> d" and "d \<le> Max (set (d # ds))"
    by simp_all
  then have "Min (set (d # ds)) \<le> Max (set (d # ds))"
    by (rule order_trans)
  then show ?thesis
    by (simp only: Min.set_eq_fold Max.set_eq_fold)
qed

lemma resample_sum_steps:
  assumes A: "A = rollforward k (fold min (map (\<lambda>r. dt_date (data r)) rs) (dt_date (data r)))"
    and B: "B = rollforward k (fold max (map (\<lambda>r. dt_date (data r)) rs) (dt_date (data r)))"
    and n: "B = A + 7 * int n"
  shows "resample_sum k (r # rs) =
           map (\<lambda>l. (l, bin_sum (r # rs) (l - 7) l)) (date_range A B)"
proof -
  let ?g = "\<lambda>i. A - 7 + 7 * int i"
  have "time_bins k (map (\<lambda>r. dt_date (data r)) (r # rs)) = map ?g [0..<Suc (Suc n)]"
    using time_bins_steps [OF A B n] by simp
  then have "resample_sum k (r # rs) =
      map (\<lambda>(lo, hi). (hi, bin_sum (r # rs) lo hi)) (map (\<lambda>i. (?g i, ?g (Suc i))) [0..<Suc n])"
    unfolding resample_sum_def Let_def by (simp only: zip_tl_steps)
  also have "\<dots> = map (\<lambda>l. (l, bin_sum (r # rs) (l - 7) l)) (map (\<lambda>i. A + 7 * int i) [0..<Suc n])"
    by (simp add: algebra_simps del: upt_Suc)
  finally show ?thesis
    by (simp only: n date_range_steps)
qed

lemma bin_sum_week:
  assumes "weekday l = k"
  shows "bin_sum df (l - 7) l =
           (\<Sum>r\<leftarrow>filter (\<lambda>r. rollforward k (dt_date (data r)) = l) df. vendas r)"
  by (simp add: bin_sum_def series_sum_sum_list rollforward_eq_iff [OF assms])

lemma to_offset_range: "to_offset freq = Inr (Week k) \<Longrightarrow> 0 \<le> k \<and> k < 7"
  by (auto simp: to_offset_def week_aliases_def split: if_splits option.splits)

text \<open>
  Claim C1, evaluated on one filtered row dated Wednesday 2024-01-10. The script
  raises \<open>ValueError\<close> at the grouper, so the row falls in no bucket. With the
  frequency spelled \<open>W-MON\<close> the row is counted in the week that ends on Monday
  2024-01-15 and carries that date as its label, not in a week labelled Monday
  2024-01-08: the weeks of \<open>W-MON\<close> end on their Monday, they do not start on it.
\<close>

theorem wednesday_bucket:
  "weekday (ymd2ord 2024 1 10) = 2
   \<and> weekday (ymd2ord 2024 1 8) = 0
   \<and> ymd2ord 2024 1 15 = ymd2ord 2024 1 8 + 7
   \<and> df_semana [sale_on 2024 1 10 ''A'' 100 80 20] = Inl (ValueError ''Invalid frequency'')
   \<and> groupby_freq ''W-MON'' [sale_on 2024 1 10 ''A'' 100 80 20] = Inr [(ymd2ord 2024 1 15, 100)]"
  by code_simp

text \<open>
  Claim C7, evaluated on two filtered rows, of 2024-01-08 and 2024-01-22. The script
  raises \<open>ValueError\<close> at the grouper of line 119: the weekly aggregation has no
  output, so no sequence of pairs in ascending order of date, and the run ends after
  the indicators, before the line chart.
\<close>

theorem weekly_gap_raises:
  "df_semana [sale_on 2024 1 8 ''A'' 10 8 2, sale_on 2024 1 22 ''A'' 5 8 1]
     = Inl (ValueError ''Invalid frequency'')
   \<and> \<not> (\<exists>out. df_semana [sale_on 2024 1 8 ''A'' 10 8 2, sale_on 2024 1 22 ''A'' 5 8 1] = Inr out)
   \<and> render [sale_on 2024 1 8 ''A'' 10 8 2, sale_on 2024 1 22 ''A'' 5 8 1]
        (ymd2ord 2024 1 8) (ymd2ord 2024 1 22) [Some ''A'']
     = ([Metrics 15 16 3 (- 25 / 4), Divider], Raised (ValueError ''Invalid frequency''))"
proof (intro conjI)
  show "df_semana [sale_on 2024 1 8 ''A'' 10 8 2, sale_on 2024 1 22 ''A'' 5 8 1]
     = Inl (ValueError ''Invalid frequency'')"
    by (rule df_semana_raises)
  show "\<not> (\<exists>out. df_semana [sale_on 2024 1 8 ''A'' 10 8 2, sale_on 2024 1 22 ''A'' 5 8 1] = Inr out)"
    by (simp add: df_semana_raises)
  show "render [sale_on 2024 1 8 ''A'' 10 8 2, sale_on 2024 1 22 ''A'' 5 8 1]
        (ymd2ord 2024 1 8) (ymd2ord 2024 1 22) [Some ''A'']
     = ([Metrics 15 16 3 (- 25 / 4), Divider], Raised (ValueError ''Invalid frequency''))"
    by code_simp
qed

text \<open>
  For the record, what the aggregation gives for a frequency string that is a weekly
  alias, anchored on weekday \<open>k\<close>: one pair for every day of weekday \<open>k\<close> from the
  label of the earliest row to the label of the latest row, where the label of a row
  is the first such day on or after its date. The pairs are in strictly ascending
  order of their dates, and the total of a pair is the sum of \<open>vendas\<close> over the
  rows with that label, which is 0 for a week without rows. The empty table gives the
  empty result. On the two rows above, \<open>W-MON\<close> gives the pairs of 2024-01-08,
  2024-01-15 and 2024-01-22, the second with total 0.
\<close>

lemma groupby_freq_weekly:
  fixes df :: "'n::comm_monoid_add table"
  assumes "to_offset freq = Inr (Week k)"
  shows "groupby_freq freq [] = Inr []
    \<and> (df \<noteq> [] \<longrightarrow>
         (\<exists>labels.
            groupby_freq freq df =
              Inr (map (\<lambda>l. (l, \<Sum>r\<leftarrow>filter (\<lambda>r. rollforward k (dt_date (data r)) = l) df. vendas r))
                     labels)
            \<and> sorted_wrt (<) labels
            \<and> (\<forall>l. l \<in> set labels \<longleftrightarrow>
                  weekday l = k
                  \<and> rollforward k (Min (set (map (\<lambda>r. dt_date (data r)) df))) \<le> l
                  \<and> l \<le> rollforward k (Max (set (map (\<lambda>r. dt_date (data r)) df))))))"
proof (intro conjI impI)
  show "groupby_freq freq [] = Inr []"
    by (simp add: groupby_freq_def assms resample_sum_def time_bins_def)
next
  assume "df \<noteq> []"
  then obtain r rs where df: "df = r # rs"
    by (cases df) simp_all
  let ?d = "\<lambda>r :: (timestamp, 'n) sale. dt_date (data r)"
  define A where "A = rollforward k (fold min (map ?d rs) (?d r))"
  define B where "B = rollforward k (fold max (map ?d rs) (?d r))"
  from to_offset_range [OF assms] have k: "k mod 7 = k"
    by simp
  have wA: "weekday A = k"
    by (simp add: A_def weekday_rollforward_mod k)
  have "weekday B = weekday A"
    by (simp add: A_def B_def weekday_rollforward_mod)
  then have dvd: "7 dvd B - A"
    by (simp only: same_weekday_dvd)
  have "A \<le> B"
    unfolding A_def B_def by (rule rollforward_mono) (rule fold_min_le_fold_max)
  then obtain n where n: "B = A + 7 * int n"
    using dvd by (rule steps_between)
  have mn: "Min (set (map ?d df)) = fold min (map ?d rs) (?d r)"
    unfolding df list.map by (rule Min.set_eq_fold)
  have mx: "Max (set (map ?d df)) = fold max (map ?d rs) (?d r)"
    unfolding df list.map by (rule Max.set_eq_fold)
  have mem: "l \<in> set (date_range A B) \<longleftrightarrow> weekday l = k \<and> A \<le> l \<and> l \<le> B" for l
    using set_date_range [OF n, of l] same_weekday_dvd [of l A] wA by auto
  have "resample_sum k df = map (\<lambda>l. (l, bin_sum df (l - 7) l)) (date_range A B)"
    unfolding df by (rule resample_sum_steps [OF A_def B_def n])
  also have "\<dots> = map (\<lambda>l. (l, \<Sum>r\<leftarrow>filter (\<lambda>r. rollforward k (?d r) = l) df. vendas r))
                      (date_range A B)"
    by (rule map_cong) (simp_all add: mem bin_sum_week)
  finally have out: "groupby_freq freq df =
      Inr (map (\<lambda>l. (l, \<Sum>r\<leftarrow>filter (\<lambda>r. rollforward k (?d r) = l) df. vendas r)) (date_range A B))"
    by (simp add: groupby_freq_def assms)
  have srt: "sorted_wrt (<) (date_range A B)"
    unfolding n by (rule sorted_date_range)
  show "\<exists>labels.
            groupby_freq freq df =
              Inr (map (\<lambda>l. (l, \<Sum>r\<leftarrow>filter (\<lambda>r. rollforward k (dt_date (data r)) = l) df. vendas r))
                     labels)
            \<and> sorted_wrt (<) labels
            \<and> (\<forall>l. l \<in> set labels \<longleftrightarrow>
                  weekday l = k
                  \<and> rollforward k (Min (set (map (\<lambda>r. dt_date (data r)) df))) \<le> l
                  \<and> l \<le> rollforward k (Max (set (map (\<lambda>r. dt_date (data r)) df))))"
    using out srt mem unfolding mn mx A_def [symmetric] B_def [symmetric]
    by (intro exI [of _ "date_range A B"]) simp
qed

lemma groupby_freq_weekly_gap:
  "groupby_freq ''W-MON'' [sale_on 2024 1 8 ''A'' 10 8 2, sale_on 2024 1 22 ''A'' 5 8 1]
     = Inr [(ymd2ord 2024 1 8, 10), (ymd2ord 2024 1 15, 0), (ymd2ord 2024 1 22, 5)]"
  by code_simp

text \<open>
  Claim C6, evaluated on its three rows with both widgets at their defaults (the full
  range of dates, products A and B). The filter keeps the three rows; the totals are
  350, 260 and 75 and the deviation is the value \<open>450/13\<close>, which is 34.6 to one
  decimal; the
  per-product totals are A: (300, 160) and B: (50, 100); with the frequency spelled
  \<open>W-MON\<close> the weekly totals are 150 for 2024-01-08 and 200 for 2024-01-15. The
  script itself raises at the grouper: the run renders the indicators and ends with
  \<open>ValueError\<close>, with no weekly and no per-product chart.
\<close>

theorem end_to_end_scenario:
  "df_filt [sale_on 2024 1 8 ''A'' 100 80 20, sale_on 2024 1 15 ''A'' 200 80 50, sale_on 2024 1 8 ''B'' 50 100 5]
       (ymd2ord 2024 1 8) (ymd2ord 2024 1 15) [Some ''A'', Some ''B'']
     = [sale_on 2024 1 8 ''A'' 100 80 20, sale_on 2024 1 15 ''A'' 200 80 50, sale_on 2024 1 8 ''B'' 50 100 5]
   \<and> total_vendas [sale_on 2024 1 8 ''A'' 100 80 20, sale_on 2024 1 15 ''A'' 200 80 50, sale_on 2024 1 8 ''B'' 50 100 5] = 350
   \<and> total_obj [sale_on 2024 1 8 ''A'' 100 80 20, sale_on 2024 1 15 ''A'' 200 80 50, sale_on 2024 1 8 ''B'' 50 100 5] = 260
   \<and> desvio_pct [sale_on 2024 1 8 ''A'' 100 80 20, sale_on 2024 1 15 ''A'' 200 80 50, sale_on 2024 1 8 ''B'' 50 100 5] = Inr (450 / 13)
   \<and> (173 / 5 :: rat) \<le> 450 / 13 \<and> (450 / 13 :: rat) < 693 / 20
   \<and> df_prod [sale_on 2024 1 8 ''A'' 100 80 20, sale_on 2024 1 15 ''A'' 200 80 50, sale_on 2024 1 8 ''B'' 50 100 5]
       = [(''A'', 300, 160), (''B'', 50, 100)]
   \<and> groupby_freq ''W-MON'' [sale_on 2024 1 8 ''A'' 100 80 20, sale_on 2024 1 15 ''A'' 200 80 50, sale_on 2024 1 8 ''B'' 50 100 5]
       = Inr [(ymd2ord 2024 1 8, 150), (ymd2ord 2024 1 15, 200)]
   \<and> df_semana [sale_on 2024 1 8 ''A'' 100 80 20, sale_on 2024 1 15 ''A'' 200 80 50, sale_on 2024 1 8 ''B'' 50 100 5]
       = Inl (ValueError ''Invalid frequency'')
   \<and> app 0 (env_with_secret ''postgresql://host/db'')
        (db_of [raw_sale_on 2024 1 8 ''A'' 100 80 20, raw_sale_on 2024 1 15 ''A'' 200 80 50, raw_sale_on 2024 1 8 ''B'' 50 100 5])
        default_user None
     = (([PageConfig, Title, Header, Query ''postgresql://host/db'',
          DateInput (ymd2ord 2024 1 8) (ymd2ord 2024 1 15), Multiselect [Some ''A'', Some ''B''],
          Metrics 350 260 75 (450 / 13), Divider],
         Raised (ValueError ''Invalid frequency'')),
        Some \<lparr>cached = [sale_on 2024 1 8 ''A'' 100 80 20, sale_on 2024 1 15 ''A'' 200 80 50, sale_on 2024 1 8 ''B'' 50 100 5],
              stored_at = 0\<rparr>)"
  by code_simp

end
